theory Spec2Isabelle
  imports Main "HOL-Library.Word" "HOL-Library.Multiset"
begin

unbundle bit_operations_syntax

section \<open>The taint flag table of taintinfo.cpp\<close>

text \<open>
  The program decodes the 64-bit Linux kernel taint status against a constant table.
  \<open>taint_status\<close> is a \<open>uint64_t\<close>, modelled as a \<open>64 word\<close>. A \<open>const char*\<close> that may be
  \<open>nullptr\<close> (\<open>off_description\<close>) is a \<open>string option\<close>.
\<close>

type_synonym uint64 = "64 word"

datatype taint_level = INFO | WARN | ALERT

record taint_info =
  flag_shift :: nat
  level :: taint_level
  flag_off_char :: char
  flag_on_char :: char
  off_description :: "string option"
  on_description :: string

definition BFR_SIZE :: nat where
  "BFR_SIZE = 64"

definition SPACER :: char where
  "SPACER = CHR ''.''"

definition HEX_CHARS :: string where
  "HEX_CHARS = ''0123456789ABCDEF''"

definition EXIT_NORM :: int where
  "EXIT_NORM = 0"

definition EXIT_ERR_GENERIC :: int where
  "EXIT_ERR_GENERIC = 1"

definition EXIT_ERR_MEM_ALLOC :: int where
  "EXIT_ERR_MEM_ALLOC = 2"

definition TAINT_FLAGS :: "taint_info list" where
  "TAINT_FLAGS =
   [ \<lparr>flag_shift = 0, level = INFO, flag_off_char = CHR ''G'', flag_on_char = CHR ''P'',
        off_description = Some ''Only GPL modules were loaded'',
        on_description = ''Proprietary modules were loaded''\<rparr>,
     \<lparr>flag_shift = 1, level = WARN, flag_off_char = SPACER, flag_on_char = CHR ''F'',
        off_description = None,
        on_description = ''Module was force loaded (e.g., insmod -f)''\<rparr>,
     \<lparr>flag_shift = 2, level = WARN, flag_off_char = SPACER, flag_on_char = CHR ''S'',
        off_description = None,
        on_description = ''SMP kernel oops on an officially SMP incapable processor''\<rparr>,
     \<lparr>flag_shift = 3, level = ALERT, flag_off_char = SPACER, flag_on_char = CHR ''R'',
        off_description = None,
        on_description = ''Module was force unloaded (e.g., rmmod -f)''\<rparr>,
     \<lparr>flag_shift = 4, level = ALERT, flag_off_char = SPACER, flag_on_char = CHR ''M'',
        off_description = None,
        on_description = ''Processor reported a Machine Check Exception (hardware error)''\<rparr>,
     \<lparr>flag_shift = 5, level = ALERT, flag_off_char = SPACER, flag_on_char = CHR ''B'',
        off_description = None,
        on_description = ''Bad memory page referenced, or unexpected page flags encountered (possible hardware error)''\<rparr>,
     \<lparr>flag_shift = 6, level = WARN, flag_off_char = SPACER, flag_on_char = CHR ''U'',
        off_description = None,
        on_description = ''Taint requested by a userspace application''\<rparr>,
     \<lparr>flag_shift = 7, level = ALERT, flag_off_char = SPACER, flag_on_char = CHR ''D'',
        off_description = None,
        on_description = ''Kernel OOPS or BUG triggered taint''\<rparr>,
     \<lparr>flag_shift = 8, level = WARN, flag_off_char = SPACER, flag_on_char = CHR ''A'',
        off_description = None,
        on_description = ''ACPI Differentiated System Description Table overriden by user''\<rparr>,
     \<lparr>flag_shift = 9, level = WARN, flag_off_char = SPACER, flag_on_char = CHR ''W'',
        off_description = None,
        on_description = ''Kernel warning triggered taint''\<rparr>,
     \<lparr>flag_shift = 10, level = WARN, flag_off_char = SPACER, flag_on_char = CHR ''C'',
        off_description = None,
        on_description = ''Module from drivers/staging was loaded''\<rparr>,
     \<lparr>flag_shift = 11, level = WARN, flag_off_char = SPACER, flag_on_char = CHR ''I'',
        off_description = None,
        on_description = ''Workaround for a bug in platform firmware was applied''\<rparr>,
     \<lparr>flag_shift = 12, level = INFO, flag_off_char = SPACER, flag_on_char = CHR ''O'',
        off_description = None,
        on_description = ''Externally-built (out-of-tree) module was loaded''\<rparr>,
     \<lparr>flag_shift = 13, level = INFO, flag_off_char = SPACER, flag_on_char = CHR ''E'',
        off_description = None,
        on_description = ''Unsigned module was loaded''\<rparr>,
     \<lparr>flag_shift = 14, level = ALERT, flag_off_char = SPACER, flag_on_char = CHR ''L'',
        off_description = None,
        on_description = ''Soft lockup occurred''\<rparr>,
     \<lparr>flag_shift = 15, level = WARN, flag_off_char = SPACER, flag_on_char = CHR ''K'',
        off_description = None,
        on_description = ''Kernel was live-patched''\<rparr>,
     \<lparr>flag_shift = 16, level = WARN, flag_off_char = SPACER, flag_on_char = CHR ''X'',
        off_description = None,
        on_description = ''Auxiliary taint (depending on Linux distribution)''\<rparr>,
     \<lparr>flag_shift = 17, level = INFO, flag_off_char = SPACER, flag_on_char = CHR ''T'',
        off_description = None,
        on_description = ''Kernel was built with the struct randomization plugin''\<rparr> ]"

definition TAINT_FLAGS_ENTRIES :: nat where
  "TAINT_FLAGS_ENTRIES = length TAINT_FLAGS"

definition F_INFO :: string where
  "F_INFO = CHR 0x1B # ''[0;32m''"

definition F_WARN :: string where
  "F_WARN = CHR 0x1B # ''[1;33m''"

definition F_ALERT :: string where
  "F_ALERT = CHR 0x1B # ''[1;31m''"

definition F_BOLD :: string where
  "F_BOLD = CHR 0x1B # ''[1m''"

definition F_RESET :: string where
  "F_RESET = CHR 0x1B # ''[0m''"

text \<open>
  \<open>get_flag_value\<close> is \<open>static_cast<uint64_t> (1) << flag_shift\<close>. Every shift of the table is
  below 64, where the C++ shift is defined and agrees with \<open>push_bit\<close>.
\<close>

definition get_flag_value :: "nat \<Rightarrow> uint64" where
  "get_flag_value shift = push_bit shift 1"

section \<open>Output streams\<close>

text \<open>
  Every \<open><<\<close> on \<open>std::cout\<close> or \<open>std::cerr\<close> appends one item to the stream: a format
  (colour) sequence, a single \<open>char\<close>, a text, a \<open>uint64_t\<close> printed in decimal, or
  \<open>std::endl\<close>.
\<close>

datatype out = Fmt string | Chr char | Str string | Num uint64 | Endl

fun dec_digits :: "nat \<Rightarrow> string" where
  "dec_digits n =
     (if n < 10 then [char_of (48 + n)]
      else dec_digits (n div 10) @ [char_of (48 + n mod 10)])"

declare dec_digits.simps [simp del]

fun render :: "out \<Rightarrow> string" where
  "render (Fmt f) = f"
| "render (Chr c) = [c]"
| "render (Str s) = s"
| "render (Num n) = dec_digits (unat n)"
| "render Endl = [CHR 0x0A]"

text \<open>The items of a stream, cut into lines at each \<open>std::endl\<close>.\<close>

fun split_lines :: "out list \<Rightarrow> out list \<Rightarrow> out list list" where
  "split_lines cur [] = (if cur = [] then [] else [cur])"
| "split_lines cur (x # xs) =
     (if x = Endl then cur # split_lines [] xs else split_lines (cur @ [x]) xs)"

definition lines_of :: "out list \<Rightarrow> out list list" where
  "lines_of xs = split_lines [] xs"

text \<open>The text of a line as a terminal shows it: the colour sequences are not characters.\<close>

fun visible :: "out \<Rightarrow> string" where
  "visible (Fmt f) = []"
| "visible x = render x"

definition visible_text :: "out list \<Rightarrow> string" where
  "visible_text l = concat (map visible l)"

section \<open>print_hex\<close>

text \<open>
  The loop of \<open>print_hex\<close>: sixteen rounds, each printing \<open>HEX_CHARS[remainder >> 60]\<close> and
  shifting \<open>remainder\<close> left by four bits. The cast to \<open>uint8_t\<close> is the \<open>ucast\<close>.
\<close>

function print_hex_loop :: "nat \<Rightarrow> uint64 \<Rightarrow> out list" where
  "print_hex_loop counter remainder =
     (if counter < 16
      then Chr (HEX_CHARS ! unat (ucast (drop_bit 60 remainder) :: 8 word))
             # print_hex_loop (counter + 1) (push_bit 4 remainder)
      else [])"
  by pat_completeness auto
termination
  by (relation "measure (\<lambda>(counter, remainder). 16 - counter)") auto

declare print_hex_loop.simps [simp del]

definition print_hex :: "uint64 \<Rightarrow> out list" where
  "print_hex v = print_hex_loop 0 v"

section \<open>taint_analyze\<close>

fun level_format :: "taint_level \<Rightarrow> string" where
  "level_format INFO = F_INFO"
| "level_format WARN = F_WARN"
| "level_format ALERT = F_ALERT"

text \<open>One round of the first loop of \<open>taint_analyze\<close>: the flag character of one entry.\<close>

definition analyze_flag :: "uint64 \<Rightarrow> taint_info \<Rightarrow> out list" where
  "analyze_flag taint_status e =
     (let flag_value = get_flag_value (flag_shift e) in
      (if taint_status AND flag_value = flag_value
       then [Fmt (level_format (level e)), Chr (flag_on_char e)]
       else (if flag_off_char e \<noteq> SPACER then [Fmt (level_format (level e))] else [])
              @ [Chr (flag_off_char e)])
      @ [Fmt F_RESET])"

text \<open>One round of the second loop: the description line of one entry, if it has one.\<close>

definition analyze_detail :: "uint64 \<Rightarrow> taint_info \<Rightarrow> out list" where
  "analyze_detail taint_status e =
     (let flag_value = get_flag_value (flag_shift e) in
      if taint_status AND flag_value = flag_value
      then [Str ''- '', Fmt (level_format (level e)), Chr (flag_on_char e), Fmt F_RESET,
            Str '' '', Str (on_description e), Str '' ('',
            Num (get_flag_value (flag_shift e)), Str '')'', Endl]
      else (case off_description e of
              Some d \<Rightarrow>
                if flag_off_char e \<noteq> SPACER
                then [Str ''- '', Fmt F_INFO, Chr (flag_off_char e), Fmt F_RESET,
                      Str '' '', Str d, Str '' ('',
                      Num (get_flag_value (flag_shift e)), Str '' unset)'', Endl]
                else []
            | None \<Rightarrow> []))"

definition taint_analyze :: "uint64 \<Rightarrow> out list" where
  "taint_analyze taint_status =
     [Fmt F_BOLD, Str ''Taint flags:            '', Fmt F_RESET]
     @ concat (map (analyze_flag taint_status) TAINT_FLAGS)
     @ [Endl]
     @ [Fmt F_BOLD, Str ''Numeric representation: '', Fmt F_RESET, Num taint_status,
        Str '' / 0x'']
     @ print_hex taint_status
     @ [Endl, Endl]
     @ concat (map (analyze_detail taint_status) TAINT_FLAGS)
     @ (if taint_status = 0 then [Str ''(Kernel is not tainted)'', Endl] else [])
     @ [Endl]"

section \<open>taint_list\<close>

definition list_entry :: "taint_info \<Rightarrow> out list" where
  "list_entry e =
     (case off_description e of
        Some d \<Rightarrow>
          if flag_off_char e \<noteq> SPACER
          then [Str ''- '', Chr (flag_off_char e), Str '': '', Str d, Str '' ('',
                Num (get_flag_value (flag_shift e)), Str '' unset)'', Endl]
          else []
      | None \<Rightarrow> [])
     @ [Str ''- '', Chr (flag_on_char e), Str '': '', Str (on_description e), Str '' ('',
        Num (get_flag_value (flag_shift e)), Str '')'', Endl]"

definition taint_list :: "out list" where
  "taint_list = concat (map list_entry TAINT_FLAGS)"

section \<open>taint_query\<close>

text \<open>
  \<open>std::toupper\<close> on an \<open>unsigned char\<close>. The program never calls \<open>setlocale\<close>, so the "C"
  locale applies: the letters a to z map to A to Z and every other byte to itself.
\<close>

definition toupper :: "char \<Rightarrow> char" where
  "toupper c =
     (if 97 \<le> (of_char c :: nat) \<and> (of_char c :: nat) \<le> 122
      then char_of ((of_char c :: nat) - 32) else c)"

text \<open>
  The two kinds of message \<open>taint_query\<close> writes to \<open>std::cerr\<close>, and the items each one
  prints.
\<close>

datatype warning = Unknown_flag char | Conflicting_flags char char

fun print_warning :: "warning \<Rightarrow> out list" where
  "print_warning (Unknown_flag c) =
     [Fmt F_WARN, Str (''Warning: Unknown taint flag '' @ [CHR 0x27]), Chr c,
      Str (CHR 0x27 # '' ignored.''), Fmt F_RESET, Endl]"
| "print_warning (Conflicting_flags on off) =
     [Fmt F_WARN, Str (''Warning: Conflicting taint flags '' @ [CHR 0x27]), Chr on,
      Str (CHR 0x27 # '' and '' @ [CHR 0x27]), Chr off, Str [CHR 0x27], Fmt F_RESET, Endl,
      Fmt F_WARN, Str (''         Using taint-enabling flag '' @ [CHR 0x27]), Chr on,
      Str [CHR 0x27], Fmt F_RESET, Endl]"

text \<open>
  The inner \<open>while\<close> loop of the first pass, over the entries from \<open>entry_idx\<close> on. It returns
  whether it left by \<open>break\<close> (that is, \<open>entry_idx < TAINT_FLAGS_ENTRIES\<close> afterwards) and the
  new \<open>taint_status\<close>.
\<close>

fun scan_entries :: "char \<Rightarrow> taint_info list \<Rightarrow> uint64 \<Rightarrow> bool \<times> uint64" where
  "scan_entries query_flag_char [] taint_status = (False, taint_status)"
| "scan_entries query_flag_char (e # es) taint_status =
     (if query_flag_char = flag_on_char e
      then (True, taint_status OR get_flag_value (flag_shift e))
      else if flag_off_char e \<noteq> SPACER \<and> query_flag_char = flag_off_char e
      then (True, taint_status)
      else scan_entries query_flag_char es taint_status)"

text \<open>The first pass over the query string: the status and the warnings so far are the state.\<close>

fun query_pass1 :: "string \<Rightarrow> uint64 \<times> warning list \<Rightarrow> uint64 \<times> warning list" where
  "query_pass1 [] st = st"
| "query_pass1 (c # cs) (taint_status, ws) =
     (let query_flag_char = toupper c;
          (found, taint_status') = scan_entries query_flag_char TAINT_FLAGS taint_status
      in query_pass1 cs
           (taint_status', if found then ws else ws @ [Unknown_flag query_flag_char]))"

text \<open>The second pass: one round of the inner loop, and both loops.\<close>

definition conflict_check :: "uint64 \<Rightarrow> char \<Rightarrow> taint_info \<Rightarrow> warning list" where
  "conflict_check taint_status c e =
     (if flag_off_char e \<noteq> SPACER
      then (let query_flag_char = toupper c;
                flag_value = get_flag_value (flag_shift e)
            in if query_flag_char = flag_off_char e \<and> taint_status AND flag_value = flag_value
               then [Conflicting_flags (flag_on_char e) (flag_off_char e)]
               else [])
      else [])"

definition query_pass2 :: "string \<Rightarrow> uint64 \<Rightarrow> warning list" where
  "query_pass2 query_input taint_status =
     concat (map (\<lambda>c. concat (map (conflict_check taint_status c) TAINT_FLAGS)) query_input)"

text \<open>The value \<open>taint_query\<close> accumulates and hands to \<open>taint_analyze\<close>, and its warnings.\<close>

definition query_status :: "string \<Rightarrow> uint64" where
  "query_status query_input = fst (query_pass1 query_input (0, []))"

definition query_warnings :: "string \<Rightarrow> warning list" where
  "query_warnings query_input =
     snd (query_pass1 query_input (0, [])) @ query_pass2 query_input (query_status query_input)"

record streams =
  std_out :: "out list"
  std_err :: "out list"

definition taint_query :: "string \<Rightarrow> streams" where
  "taint_query query_input =
     \<lparr>std_out = taint_analyze (query_status query_input),
      std_err = concat (map print_warning (query_warnings query_input))\<rparr>"

section \<open>taint_load and main\<close>

text \<open>
  The C++ exceptions the program names. A function that may throw returns \<open>exn + 'a\<close>, with
  \<open>Inl\<close> for the exception.
\<close>

datatype exn = Bad_alloc | Number_format_exception

text \<open>
  What a run depends on besides its arguments: the state of the file \<open>TAINT_INFO_FILE\<close>
  (it cannot be opened, or it is open and reading gives an I/O error or its bytes), which of
  the program's allocations throw \<open>std::bad_alloc\<close> (the construction of \<open>cl_param\<close>, the
  \<open>new char[]\<close> of the read buffer, the \<open>substr\<close>), and
  \<open>dsaext::parse_unsigned_int64_c_str\<close> of the cppdsaext library, which returns the number
  or throws. Whether the construction of a \<open>std::string\<close> allocates at all is up to the
  library (a short string need not); where it does not, it does not throw.
\<close>

datatype taint_file = Unopenable | Opened "string option"

datatype alloc = Alloc_cl_param | Alloc_data_bfr | Alloc_substr

record env =
  taint_info_file :: taint_file
  alloc_fails :: "alloc \<Rightarrow> bool"
  parse_unsigned_int64_c_str :: "string \<Rightarrow> exn + uint64"

definition TAINT_INFO_FILE :: string where
  "TAINT_INFO_FILE = ''/proc/sys/kernel/tainted''"

definition PRM_LIST :: string where
  "PRM_LIST = ''list''"

definition PRM_FLAGS :: string where
  "PRM_FLAGS = ''taint=''"

definition PRM_CURRENT :: string where
  "PRM_CURRENT = ''current''"

text \<open>
  \<open>std::istream::get (s, n)\<close>: the bytes before the first newline, at most \<open>n - 1\<close> of them;
  the stream fails when there is none. \<open>None\<close> is \<open>data_in.fail ()\<close>.
\<close>

definition istream_get :: "string option \<Rightarrow> nat \<Rightarrow> string option" where
  "istream_get content n =
     (case content of
        None \<Rightarrow> None
      | Some bytes \<Rightarrow>
          (let s = take (n - 1) (takeWhile (\<lambda>c. c \<noteq> CHR 0x0A) bytes)
           in if s = [] then None else Some s))"

fun c_str_length :: "string \<Rightarrow> nat \<Rightarrow> nat" where
  "c_str_length text 0 = 0"
| "c_str_length [] (Suc max_length) = 0"
| "c_str_length (c # cs) (Suc max_length) =
     (if c = CHR 0x00 then 0 else Suc (c_str_length cs max_length))"

text \<open>
  The \<open>try\<close> block of \<open>taint_load\<close>. The result is \<open>rc\<close>, the value of the reference
  parameter \<open>taint_status\<close> and what was written to \<open>std::cerr\<close>. The buffer that \<open>get\<close>
  fills ends with a NUL byte.
\<close>

definition taint_load_try :: "env \<Rightarrow> uint64 \<Rightarrow> exn + (bool \<times> uint64 \<times> out list)" where
  "taint_load_try env taint_status =
     (case taint_info_file env of
        Unopenable \<Rightarrow>
          Inr (False, taint_status,
               [Fmt F_ALERT, Str (''Cannot open input file '' @ [CHR 0x22]), Str TAINT_INFO_FILE, Str [CHR 0x22],
                Fmt F_RESET, Endl])
      | Opened content \<Rightarrow>
          if alloc_fails env Alloc_data_bfr then Inl Bad_alloc
          else (case istream_get content BFR_SIZE of
                  None \<Rightarrow>
                    Inr (False, taint_status,
                         [Fmt F_ALERT, Str (''Cannot read taint status from input file '' @ [CHR 0x22]),
                          Str TAINT_INFO_FILE, Str (CHR 0x22 # '': ''), Str ''I/O error'', Fmt F_RESET, Endl])
                | Some data \<Rightarrow>
                    (let data_bfr = data @ [CHR 0x00]
                     in case parse_unsigned_int64_c_str env
                               (take (c_str_length data_bfr BFR_SIZE) data_bfr) of
                          Inl e \<Rightarrow> Inl e
                        | Inr v \<Rightarrow> Inr (True, v, []))))"

definition taint_load :: "env \<Rightarrow> uint64 \<Rightarrow> exn + (bool \<times> uint64 \<times> out list)" where
  "taint_load env taint_status =
     (case taint_load_try env taint_status of
        Inl Number_format_exception \<Rightarrow>
          Inr (False, taint_status,
               [Fmt F_ALERT, Str (''Input file '' @ [CHR 0x22]), Str TAINT_INFO_FILE,
                Str (CHR 0x22 # '' contains unparsable data''), Fmt F_RESET, Endl])
      | Inl Bad_alloc \<Rightarrow> Inl Bad_alloc
      | Inr r \<Rightarrow> Inr r)"

text \<open>The usage text (\<^verbatim>\<open>print_syntax\<close> in the source; the name is taken in Isabelle).\<close>

definition print_syntax_text :: "string \<Rightarrow> out list" where
  "print_syntax_text program =
     [Str ''Syntax: '', Str program, Str '' { current | list | taint=<flags> }'', Chr (CHR 0x0A),
      Str ''        current      Display information about the current taint status of the running kernel'',
      Chr (CHR 0x0A),
      Str ''        list         List all known taint flags and their descriptions'',
      Chr (CHR 0x0A),
      Str ''        taint=flags  Display information about the specified taint flags'',
      Chr (CHR 0x0A),
      Endl]"

text \<open>
  The \<open>try\<close> block of \<open>main\<close>, on \<open>argv\<close> (\<open>argc\<close> is its length). The result is the exit
  code and the two streams.
\<close>

definition main_try :: "env \<Rightarrow> string list \<Rightarrow> string \<Rightarrow> exn + (int \<times> streams)" where
  "main_try env argv program =
     (if length argv = 2
      then if alloc_fails env Alloc_cl_param then Inl Bad_alloc
           else (let cl_param = argv ! 1 in
                 if cl_param = PRM_CURRENT
                 then (case taint_load env 0 of
                         Inl e \<Rightarrow> Inl e
                       | Inr (rc, taint_status, err) \<Rightarrow>
                           (let exit_code = (if rc then EXIT_NORM else EXIT_ERR_GENERIC) in
                            if exit_code = EXIT_NORM
                            then Inr (exit_code,
                                      \<lparr>std_out = taint_analyze taint_status, std_err = err\<rparr>)
                            else Inr (exit_code, \<lparr>std_out = [], std_err = err\<rparr>)))
                 else if cl_param = PRM_LIST
                 then Inr (EXIT_NORM, \<lparr>std_out = taint_list, std_err = []\<rparr>)
                 else if take (length PRM_FLAGS) cl_param = PRM_FLAGS
                 then if alloc_fails env Alloc_substr then Inl Bad_alloc
                      else Inr (EXIT_NORM,
                                taint_query
                                  (take (length cl_param - length PRM_FLAGS)
                                     (drop (length PRM_FLAGS) cl_param)))
                 else Inr (EXIT_ERR_GENERIC, \<lparr>std_out = print_syntax_text program, std_err = []\<rparr>))
      else Inr (EXIT_ERR_GENERIC, \<lparr>std_out = print_syntax_text program, std_err = []\<rparr>))"

text \<open>\<open>main\<close>: \<open>Inl\<close> is an exception that leaves \<open>main\<close> uncaught.\<close>

definition main :: "env \<Rightarrow> string list \<Rightarrow> exn + (int \<times> streams)" where
  "main env argv =
     (let program = (if length argv \<ge> 1 then argv ! 0 else ''TaintInfo'') in
      case main_try env argv program of
        Inl Bad_alloc \<Rightarrow>
          Inr (EXIT_ERR_MEM_ALLOC,
               \<lparr>std_out = [],
                std_err = [Fmt F_ALERT, Str program, Str '': Out of memory'', Fmt F_RESET, Endl]\<rparr>)
      | Inl e \<Rightarrow> Inl e
      | Inr r \<Rightarrow> Inr r)"

definition exit_code :: "exn + (int \<times> streams) \<Rightarrow> int option" where
  "exit_code r = (case r of Inl e \<Rightarrow> None | Inr (code, s) \<Rightarrow> Some code)"

text \<open>
  Modelled from the spec: \<open>dsaext::parse_unsigned_int64_c_str\<close> belongs to the cppdsaext
  library, which is not part of this repository. The specification asks of it: "given a byte
  sequence, parse as unsigned 64-bit decimal; fail if empty, non-digit, or overflowing."
  It serves as the parser of the example runs only; the statements about \<open>main\<close> hold for
  every parser.
\<close>

fun parse_digits :: "string \<Rightarrow> nat \<Rightarrow> nat option" where
  "parse_digits [] acc = Some acc"
| "parse_digits (c # cs) acc =
     (if 48 \<le> (of_char c :: nat) \<and> (of_char c :: nat) \<le> 57
      then parse_digits cs (10 * acc + (of_char c - 48)) else None)"

definition parse_unsigned_decimal :: "string \<Rightarrow> exn + uint64" where
  "parse_unsigned_decimal s =
     (if s = [] then Inl Number_format_exception
      else case parse_digits s 0 of
             None \<Rightarrow> Inl Number_format_exception
           | Some n \<Rightarrow> if n < 2 ^ 64 then Inr (of_nat n) else Inl Number_format_exception)"

text \<open>
  Example environments: the state of the file, and the allocations that throw
  \<open>std::bad_alloc\<close>.
\<close>

definition example_env :: "taint_file \<Rightarrow> (alloc \<Rightarrow> bool) \<Rightarrow> env" where
  "example_env file fails =
     \<lparr>taint_info_file = file, alloc_fails = fails,
      parse_unsigned_int64_c_str = parse_unsigned_decimal\<rparr>"

section \<open>Notions used in the statements\<close>

text \<open>
  What the program reads of the bytes of the file: the bytes before the first newline, 63 at
  most. What it hands to the parser: the bytes of that line before the first NUL byte.
\<close>

definition line_read :: "string \<Rightarrow> string" where
  "line_read bytes = take 63 (takeWhile (\<lambda>c. c \<noteq> CHR 0x0A) bytes)"

definition c_string :: "string \<Rightarrow> string" where
  "c_string data = takeWhile (\<lambda>c. c \<noteq> CHR 0x00) data"

text \<open>What a run has printed on \<open>std::cout\<close>.\<close>

definition printed :: "exn + (int \<times> streams) \<Rightarrow> out list" where
  "printed r = (case r of Inl e \<Rightarrow> [] | Inr (code, s) \<Rightarrow> std_out s)"

text \<open>What one query character contributes to the status: the inner loop run from status 0.\<close>

definition char_bits :: "char \<Rightarrow> uint64" where
  "char_bits c = snd (scan_entries (toupper c) TAINT_FLAGS 0)"

text \<open>
  A query character that, in upper case, is no entry's \<open>flag_on_char\<close> and no entry's
  \<open>flag_off_char\<close> (an entry whose \<open>flag_off_char\<close> is the spacer has none).
\<close>

definition matches_no_flag :: "char \<Rightarrow> bool" where
  "matches_no_flag c =
     list_all (\<lambda>e. toupper c \<noteq> flag_on_char e
                   \<and> \<not> (flag_off_char e \<noteq> SPACER \<and> toupper c = flag_off_char e)) TAINT_FLAGS"

text \<open>The kind of a warning.\<close>

fun is_unknown_flag :: "warning \<Rightarrow> bool" where
  "is_unknown_flag (Unknown_flag c) = True"
| "is_unknown_flag (Conflicting_flags on off) = False"

text \<open>The single characters (\<open>char\<close> items) printed on a line, in order.\<close>

fun flag_chars :: "out list \<Rightarrow> string" where
  "flag_chars [] = []"
| "flag_chars (Chr c # xs) = c # flag_chars xs"
| "flag_chars (x # xs) = flag_chars xs"

section \<open>Bits, flags and upper case\<close>

lemma bit_get_flag_value: "bit (get_flag_value k) n \<longleftrightarrow> n = k \<and> k < 64"
  by (auto simp add: get_flag_value_def bit_simps)

lemma flag_test_iff_bit: "k < 64 \<Longrightarrow> (v AND get_flag_value k = get_flag_value k) \<longleftrightarrow> bit v k"
proof
  assume k: "k < 64" and eq: "v AND get_flag_value k = get_flag_value k"
  have "bit (v AND get_flag_value k) k" using k by (simp only: eq bit_get_flag_value)
  then show "bit v k" by (simp add: bit_simps)
next
  assume k: "k < 64" and b: "bit v k"
  show "v AND get_flag_value k = get_flag_value k"
    by (rule bit_word_eqI) (use b in \<open>auto simp add: bit_simps bit_get_flag_value\<close>)
qed

lemma of_char_toupper:
  "(of_char (toupper c) :: nat) =
     (if 97 \<le> (of_char c :: nat) \<and> (of_char c :: nat) \<le> 122 then of_char c - 32 else of_char c)"
proof (cases "97 \<le> (of_char c :: nat) \<and> (of_char c :: nat) \<le> 122")
  case True
  then have "(of_char c :: nat) - 32 < 256" by arith
  then have "((of_char c :: nat) - 32) mod 256 = of_char c - 32" by (rule mod_less)
  with True show ?thesis by (simp add: toupper_def)
next
  case False
  then show ?thesis by (auto simp add: toupper_def)
qed

lemma char_eq_char_of_iff: "c = char_of n \<longleftrightarrow> take_bit 8 n = (of_char c :: nat)"
  using char_of_eq_iff [of n c] by auto

lemma toupper_idem: "toupper (toupper c) = toupper c"
proof -
  have "\<not> (97 \<le> (of_char (toupper c) :: nat) \<and> (of_char (toupper c) :: nat) \<le> 122)"
    by (simp add: of_char_toupper) arith
  then show ?thesis by (auto simp add: toupper_def [of "toupper c"])
qed

lemma flag_shifts: "flag_shift ` set TAINT_FLAGS = {0..17}"
proof
  show "flag_shift ` set TAINT_FLAGS \<subseteq> {0..17}"
    by (simp add: TAINT_FLAGS_def)
  show "{0..17} \<subseteq> flag_shift ` set TAINT_FLAGS"
  proof
    fix x :: nat assume "x \<in> {0..17}"
    then have "x = 0 \<or> x = 1 \<or> x = 2 \<or> x = 3 \<or> x = 4 \<or> x = 5 \<or> x = 6 \<or> x = 7 \<or> x = 8
      \<or> x = 9 \<or> x = 10 \<or> x = 11 \<or> x = 12 \<or> x = 13 \<or> x = 14 \<or> x = 15 \<or> x = 16 \<or> x = 17"
      by (simp only: atLeastAtMost_iff) arith
    then show "x \<in> flag_shift ` set TAINT_FLAGS"
      by (auto simp add: TAINT_FLAGS_def)
  qed
qed

section \<open>The status accumulated by taint_query\<close>

lemma scan_entries_snd: "snd (scan_entries ch es st) = st OR snd (scan_entries ch es 0)"
  by (induction es) auto

lemma query_pass1_fst_bit:
  "bit (fst (query_pass1 cs (st, ws))) n \<longleftrightarrow> bit st n \<or> (\<exists>c \<in> set cs. bit (char_bits c) n)"
proof (induction cs arbitrary: st ws)
  case Nil
  then show ?case by simp
next
  case (Cons c cs)
  obtain f st' where sc: "scan_entries (toupper c) TAINT_FLAGS st = (f, st')"
    by (cases "scan_entries (toupper c) TAINT_FLAGS st")
  have st': "st' = st OR char_bits c"
    using scan_entries_snd [of "toupper c" TAINT_FLAGS st] sc by (simp add: char_bits_def)
  show ?case
    by (simp add: sc Cons.IH st' bit_simps)
qed

lemma query_status_bit:
  "bit (query_status q) n \<longleftrightarrow> (\<exists>c \<in> set q. bit (char_bits c) n)"
  by (simp add: query_status_def query_pass1_fst_bit)

lemma query_status_set_cong: "set q = set q' \<Longrightarrow> query_status q = query_status q'"
  by (rule bit_word_eqI) (simp add: query_status_bit)

lemma scan_entries_bits:
  "bit (snd (scan_entries ch es 0)) n \<Longrightarrow> n \<in> flag_shift ` set es"
  by (induction es) (auto simp add: bit_get_flag_value split: if_splits)

lemma query_status_bit_positions:
  "bit (query_status q) n \<Longrightarrow> n \<in> flag_shift ` set TAINT_FLAGS"
  by (auto simp add: query_status_bit char_bits_def dest: scan_entries_bits)

lemma query_status_less: "query_status q < 2 ^ 18"
proof -
  have "query_status q AND mask 18 = query_status q"
  proof (rule bit_word_eqI)
    fix n assume "n < LENGTH(64)"
    show "bit (query_status q AND mask 18) n \<longleftrightarrow> bit (query_status q) n"
      using query_status_bit_positions [of q n] flag_shifts by (auto simp add: bit_simps)
  qed
  moreover have "query_status q AND mask 18 < 2 ^ 18"
    by (rule and_mask_less_size) (simp add: word_size)
  ultimately show ?thesis by simp
qed

lemma char_bits_toupper: "char_bits (toupper c) = char_bits c"
  by (simp add: char_bits_def toupper_idem)

lemma query_status_toupper: "query_status (map toupper q) = query_status q"
  by (rule bit_word_eqI) (simp add: query_status_bit char_bits_toupper)

text \<open>
  C2. \<open>taint_query\<close> on the string "pmeol" accumulates exactly the bits 0, 4, 12, 13 and 14:
  the value 28689, which is 0x7011.
\<close>

theorem query_status_pmeol:
  "query_status ''pmeol'' = 28689
   \<and> (28689 :: uint64) = 0x7011
   \<and> (\<forall>n. bit (query_status ''pmeol'') n \<longleftrightarrow> n \<in> {0, 4, 12, 13, 14})"
proof -
  have v: "query_status ''pmeol'' = 28689"
    by code_simp
  have "(28689 :: uint64) = get_flag_value 0 OR get_flag_value 4 OR get_flag_value 12
          OR get_flag_value 13 OR get_flag_value 14"
    by (simp add: get_flag_value_def)
  then have "bit (28689 :: uint64) n \<longleftrightarrow> n \<in> {0, 4, 12, 13, 14}" for n
    by (simp only: bit_or_iff bit_get_flag_value) auto
  with v show ?thesis by simp
qed

text \<open>
  C6. \<open>taint_query\<close> is case-insensitive and repeating characters changes nothing: the
  strings "P", "p" and "pp" all give the value 1, which has bit 0 set and no other. In
  general, upper-casing the query or doubling it leaves the status as it is.
\<close>

theorem query_status_case_insensitive_idempotent:
  "query_status ''P'' = 1 \<and> query_status ''p'' = 1 \<and> query_status ''pp'' = 1
   \<and> get_flag_value 0 = 1
   \<and> query_status (map toupper q) = query_status q
   \<and> query_status (q @ q) = query_status q"
proof -
  have "query_status ''P'' = 1" by code_simp
  moreover have "query_status ''p'' = 1" by code_simp
  moreover have "query_status ''pp'' = 1" by code_simp
  moreover have "get_flag_value 0 = 1" by (simp add: get_flag_value_def)
  moreover have "query_status (q @ q) = query_status q"
    by (rule query_status_set_cong) simp
  ultimately show ?thesis by (simp add: query_status_toupper)
qed

text \<open>
  C10. For every input string the status accumulated by \<open>taint_query\<close> has bits only at
  positions that are a \<open>flag_shift\<close> of the table, which are the positions 0 to 17; so it is
  below \<open>2 ^ 18\<close>; and it is the same for every reordering of the input characters.
\<close>

theorem query_status_bits_in_table_order_independent:
  "(\<forall>n. bit (query_status q) n \<longrightarrow> n \<in> flag_shift ` set TAINT_FLAGS \<and> n \<le> 17)
   \<and> query_status q < 2 ^ 18
   \<and> (mset q = mset q' \<longrightarrow> query_status q = query_status q')"
proof -
  have "n \<in> flag_shift ` set TAINT_FLAGS \<and> n \<le> 17" if "bit (query_status q) n" for n
    using query_status_bit_positions [OF that] flag_shifts by auto
  moreover have "query_status q = query_status q'" if "mset q = mset q'"
    by (rule query_status_set_cong) (rule mset_eq_setD [OF that])
  moreover note query_status_less [of q]
  ultimately show ?thesis by blast
qed

theorem query_status_bits_in_table_order_independent_witness:
  "mset ''lzp'' = mset ''pzl'' \<and> bit (query_status ''lzp'') 14
   \<and> 14 \<in> flag_shift ` set TAINT_FLAGS \<and> query_status ''lzp'' < 2 ^ 18
   \<and> query_status ''lzp'' = query_status ''pzl''"
proof -
  have m: "mset ''lzp'' = mset ''pzl''" by (simp add: add_mset_commute)
  have "query_status ''lzp'' = 16385" by code_simp
  then have b: "bit (query_status ''lzp'') 14" by simp
  from query_status_bits_in_table_order_independent [of "''lzp''" "''pzl''"] m b
  show ?thesis by blast
qed

section \<open>Lines of the report\<close>

lemma split_lines_append:
  "Endl \<notin> set xs \<Longrightarrow> split_lines cur (xs @ Endl # ys) = (cur @ xs) # split_lines [] ys"
  by (induction xs arbitrary: cur) auto

lemma flag_chars_append: "flag_chars (xs @ ys) = flag_chars xs @ flag_chars ys"
  by (induction xs rule: flag_chars.induct) auto

lemma visible_text_Nil: "visible_text [] = []"
  by (simp add: visible_text_def)

lemma visible_text_append: "visible_text (xs @ ys) = visible_text xs @ visible_text ys"
  by (simp add: visible_text_def)

lemma shift_lt_64: "e \<in> set TAINT_FLAGS \<Longrightarrow> flag_shift e < 64"
proof -
  assume "e \<in> set TAINT_FLAGS"
  then have "flag_shift e \<in> flag_shift ` set TAINT_FLAGS" by (rule imageI)
  then show ?thesis by (simp add: flag_shifts)
qed

lemma analyze_flag_chars:
  "flag_shift e < 64 \<Longrightarrow>
   flag_chars (analyze_flag v e) = [if bit v (flag_shift e) then flag_on_char e else flag_off_char e]"
  by (simp add: analyze_flag_def Let_def flag_test_iff_bit)

lemma analyze_flag_visible:
  "flag_shift e < 64 \<Longrightarrow>
   visible_text (analyze_flag v e) = [if bit v (flag_shift e) then flag_on_char e else flag_off_char e]"
  by (simp add: analyze_flag_def Let_def flag_test_iff_bit visible_text_def)

lemma analyze_flag_no_endl: "Endl \<notin> set (analyze_flag v e)"
  by (simp add: analyze_flag_def Let_def)

lemma analyze_flags_chars:
  "\<forall>e \<in> set es. flag_shift e < 64 \<Longrightarrow>
   flag_chars (concat (map (analyze_flag v) es))
     = map (\<lambda>e. if bit v (flag_shift e) then flag_on_char e else flag_off_char e) es"
  by (induction es) (simp_all add: flag_chars_append analyze_flag_chars)

lemma analyze_flags_visible:
  "\<forall>e \<in> set es. flag_shift e < 64 \<Longrightarrow>
   visible_text (concat (map (analyze_flag v) es))
     = map (\<lambda>e. if bit v (flag_shift e) then flag_on_char e else flag_off_char e) es"
  by (induction es) (simp_all add: visible_text_Nil visible_text_append analyze_flag_visible)

lemma first_line_of_report:
  "hd (lines_of (taint_analyze v))
     = [Fmt F_BOLD, Str ''Taint flags:            '', Fmt F_RESET]
       @ concat (map (analyze_flag v) TAINT_FLAGS)"
proof -
  let ?s = "[Fmt F_BOLD, Str ''Taint flags:            '', Fmt F_RESET]
       @ concat (map (analyze_flag v) TAINT_FLAGS)"
  have n: "Endl \<notin> set ?s" by (simp add: analyze_flag_no_endl)
  obtain rest where "taint_analyze v = ?s @ Endl # rest"
    by (simp add: taint_analyze_def)
  then show ?thesis
    using split_lines_append [OF n, of "[]"] by (simp add: lines_of_def)
qed

text \<open>
  C7. For every 64-bit value \<open>v\<close>, the summary line of \<open>taint_analyze\<close> has exactly one
  flag character per table entry, in table order: \<open>flag_on_char\<close> if the entry's bit is set
  in \<open>v\<close>, otherwise \<open>flag_off_char\<close> (the unset character or the spacer). So it has 18
  flag characters, as many as the table has entries.
\<close>

theorem summary_line_one_char_per_entry:
  "flag_chars (hd (lines_of (taint_analyze v)))
     = map (\<lambda>e. if bit v (flag_shift e) then flag_on_char e else flag_off_char e) TAINT_FLAGS
   \<and> length (flag_chars (hd (lines_of (taint_analyze v)))) = TAINT_FLAGS_ENTRIES
   \<and> TAINT_FLAGS_ENTRIES = 18
   \<and> visible_text (hd (lines_of (taint_analyze v)))
       = ''Taint flags:            ''
         @ map (\<lambda>e. if bit v (flag_shift e) then flag_on_char e else flag_off_char e) TAINT_FLAGS"
proof -
  have l: "TAINT_FLAGS_ENTRIES = 18" by (simp add: TAINT_FLAGS_ENTRIES_def TAINT_FLAGS_def)
  have b: "\<forall>e \<in> set TAINT_FLAGS. flag_shift e < 64" by (simp add: shift_lt_64)
  have c: "flag_chars (hd (lines_of (taint_analyze v)))
     = map (\<lambda>e. if bit v (flag_shift e) then flag_on_char e else flag_off_char e) TAINT_FLAGS"
    by (simp add: first_line_of_report analyze_flags_chars [OF b])
  have t: "visible_text (hd (lines_of (taint_analyze v)))
       = ''Taint flags:            ''
         @ map (\<lambda>e. if bit v (flag_shift e) then flag_on_char e else flag_off_char e) TAINT_FLAGS"
  proof -
    have h: "visible_text [Fmt F_BOLD, Str ''Taint flags:            '', Fmt F_RESET]
               = ''Taint flags:            ''"
      by (simp add: visible_text_def)
    show ?thesis
      by (simp only: first_line_of_report visible_text_append h analyze_flags_visible [OF b])
  qed
  from c have "length (flag_chars (hd (lines_of (taint_analyze v)))) = TAINT_FLAGS_ENTRIES"
    by (simp add: TAINT_FLAGS_ENTRIES_def)
  with l c t show ?thesis by simp
qed

text \<open>
  C1 as stated fails: for the value 0 the second loop of \<open>taint_analyze\<close> prints a detail
  line, the one for the unset bit 0, before "(Kernel is not tainted)".
\<close>

theorem taint_analyze_zero_detail_line:
  "concat (map (analyze_detail 0) TAINT_FLAGS) \<noteq> []
   \<and> visible_text (lines_of (taint_analyze 0) ! 3) = ''- G Only GPL modules were loaded (1 unset)''"
  by code_simp

text \<open>
  C1, amended. For the value 0, \<open>taint_analyze\<close> prints exactly one detail line, the
  unset-description line of bit 0, "- G Only GPL modules were loaded (1 unset)", and after it
  the line "(Kernel is not tainted)".
\<close>

theorem taint_analyze_zero_report:
  "map visible_text (lines_of (taint_analyze 0)) =
     [''Taint flags:            G.................'',
      ''Numeric representation: 0 / 0x0000000000000000'',
      [],
      ''- G Only GPL modules were loaded (1 unset)'',
      ''(Kernel is not tainted)'',
      []]
   \<and> concat (map (analyze_detail 0) TAINT_FLAGS) =
       [Str ''- '', Fmt F_INFO, Chr CHR ''G'', Fmt F_RESET, Str '' '',
        Str ''Only GPL modules were loaded'', Str '' ('', Num 1, Str '' unset)'', Endl]"
  by code_simp

section \<open>The hexadecimal rendering\<close>

lemma nibble_shift:
  "i < 16 \<Longrightarrow> drop_bit 60 (push_bit (4 * i) (v :: uint64)) = drop_bit (60 - 4 * i) v AND 15"
proof (rule bit_word_eqI)
  fix n assume i: "i < 16" and n: "n < LENGTH(64)"
  have m: "(15 :: uint64) = mask 4" by (simp add: mask_eq_exp_minus_1)
  show "bit (drop_bit 60 (push_bit (4 * i) v)) n \<longleftrightarrow> bit (drop_bit (60 - 4 * i) v AND 15) n"
    using i n by (auto simp add: m bit_simps)
qed

lemma nibble_unat:
  "unat (ucast (w AND (15 :: uint64)) :: 8 word) = unat (w AND 15)"
proof -
  have "w AND 15 \<le> 15" by (rule word_and_le1)
  then have "unat (w AND 15) \<le> 15" by (simp add: word_le_nat_alt)
  then show ?thesis by (simp add: unsigned_ucast_eq take_bit_nat_eq_self)
qed

lemma nibble_less: "unat (w AND (15 :: uint64)) < 16"
proof -
  have "w AND 15 \<le> 15" by (rule word_and_le1)
  then have "unat (w AND 15) \<le> 15" by (simp add: word_le_nat_alt)
  then show ?thesis by simp
qed

lemma print_hex_loop_eq:
  "counter \<le> 16 \<Longrightarrow>
   print_hex_loop counter r
     = map (\<lambda>i. Chr (HEX_CHARS ! unat (ucast (drop_bit 60 (push_bit (4 * i) r)) :: 8 word)))
         [0..<16 - counter]"
proof (induction counter r rule: print_hex_loop.induct)
  case (1 counter remainder)
  show ?case
  proof (cases "counter < 16")
    case True
    then have u: "[0..<16 - counter] = 0 # map Suc [0..<16 - (counter + 1)]"
      by (metis Suc_diff_Suc Suc_eq_plus1 map_Suc_upt upt_conv_Cons zero_less_diff)
    show ?thesis
      using "1.IH" [OF True] True
      by (subst print_hex_loop.simps) (simp add: u comp_def add.commute)
  next
    case False
    with "1.prems" show ?thesis by (subst print_hex_loop.simps) simp
  qed
qed

lemma print_hex_eq:
  "print_hex v = map (\<lambda>i. Chr (HEX_CHARS ! unat (drop_bit (60 - 4 * i) v AND 15))) [0..<16]"
proof -
  have "print_hex v
     = map (\<lambda>i. Chr (HEX_CHARS ! unat (ucast (drop_bit 60 (push_bit (4 * i) v)) :: 8 word))) [0..<16]"
    using print_hex_loop_eq [of 0 v] by (simp add: print_hex_def)
  also have "\<dots> = map (\<lambda>i. Chr (HEX_CHARS ! unat (drop_bit (60 - 4 * i) v AND 15))) [0..<16]"
    by (rule map_cong) (simp_all add: nibble_shift nibble_unat)
  finally show ?thesis .
qed

lemma visible_text_map_Chr: "visible_text (map (\<lambda>i. Chr (f i)) xs) = map f xs"
  by (induction xs) (simp_all add: visible_text_def)

text \<open>
  C8. For every 64-bit value, \<open>print_hex\<close> prints exactly 16 characters, each one of
  0123456789ABCDEF: the digit at position \<open>i\<close> (from the left, from 0) is the nibble at the
  bits \<open>60 - 4 * i\<close> and up, so the most significant nibble comes first and small values
  are padded with zeros. The value 1169 is rendered as 0000000000000491, also in the
  report of \<open>taint_analyze\<close>.
\<close>

theorem print_hex_sixteen_digits:
  "visible_text (print_hex v)
     = map (\<lambda>i. HEX_CHARS ! unat (drop_bit (60 - 4 * i) v AND 15)) [0..<16]
   \<and> length (visible_text (print_hex v)) = 16
   \<and> set (visible_text (print_hex v)) \<subseteq> set ''0123456789ABCDEF''
   \<and> visible_text (print_hex 1169) = ''0000000000000491''
   \<and> visible_text (lines_of (taint_analyze 1169) ! 1)
       = ''Numeric representation: 1169 / 0x0000000000000491''"
proof -
  have e: "visible_text (print_hex v)
     = map (\<lambda>i. HEX_CHARS ! unat (drop_bit (60 - 4 * i) v AND 15)) [0..<16]"
    by (simp only: print_hex_eq visible_text_map_Chr)
  have l: "length (visible_text (print_hex v)) = 16"
    by (simp only: e length_map length_upt)
  have n: "length HEX_CHARS = 16" by (simp add: HEX_CHARS_def)
  have "HEX_CHARS ! unat (w AND 15) \<in> set HEX_CHARS" for w :: uint64
    by (rule nth_mem) (simp only: n nibble_less)
  then have s: "set (visible_text (print_hex v)) \<subseteq> set ''0123456789ABCDEF''"
    unfolding e HEX_CHARS_def by (auto simp del: upt_Suc)
  have c: "visible_text (print_hex 1169) = ''0000000000000491''"
    by code_simp
  have r: "visible_text (lines_of (taint_analyze 1169) ! 1)
       = ''Numeric representation: 1169 / 0x0000000000000491''"
    by code_simp
  from e l s c r show ?thesis by blast
qed

section \<open>The list of flags\<close>

text \<open>
  C9. \<open>taint_list\<close> prints 19 lines: in table order one set-description line per entry (the
  lines after the first are exactly these, one per entry), and one unset-description line
  more, printed before the set-description line of its entry, for the only entry that has an
  unset description, the first, whose bit position is 0.
\<close>

theorem taint_list_report:
  "map visible_text (lines_of taint_list) =
     [''- G: Only GPL modules were loaded (1 unset)'',
      ''- P: Proprietary modules were loaded (1)'',
      ''- F: Module was force loaded (e.g., insmod -f) (2)'',
      ''- S: SMP kernel oops on an officially SMP incapable processor (4)'',
      ''- R: Module was force unloaded (e.g., rmmod -f) (8)'',
      ''- M: Processor reported a Machine Check Exception (hardware error) (16)'',
      ''- B: Bad memory page referenced, or unexpected page flags encountered (possible hardware error) (32)'',
      ''- U: Taint requested by a userspace application (64)'',
      ''- D: Kernel OOPS or BUG triggered taint (128)'',
      ''- A: ACPI Differentiated System Description Table overriden by user (256)'',
      ''- W: Kernel warning triggered taint (512)'',
      ''- C: Module from drivers/staging was loaded (1024)'',
      ''- I: Workaround for a bug in platform firmware was applied (2048)'',
      ''- O: Externally-built (out-of-tree) module was loaded (4096)'',
      ''- E: Unsigned module was loaded (8192)'',
      ''- L: Soft lockup occurred (16384)'',
      ''- K: Kernel was live-patched (32768)'',
      ''- X: Auxiliary taint (depending on Linux distribution) (65536)'',
      ''- T: Kernel was built with the struct randomization plugin (131072)'']
   \<and> length (lines_of taint_list) = length TAINT_FLAGS + 1
   \<and> tl (map visible_text (lines_of taint_list))
       = map (\<lambda>e. ''- '' @ [flag_on_char e] @ '': '' @ on_description e @ '' (''
                   @ dec_digits (2 ^ flag_shift e) @ '')'') TAINT_FLAGS
   \<and> filter (\<lambda>e. off_description e \<noteq> None) TAINT_FLAGS = [TAINT_FLAGS ! 0]
   \<and> flag_shift (TAINT_FLAGS ! 0) = 0"
  by (simp add: taint_list_def list_entry_def lines_of_def TAINT_FLAGS_def SPACER_def
        get_flag_value_def visible_text_def dec_digits.simps char_of_eq_iff)

section \<open>The warnings of taint_query\<close>

lemma scan_entries_found:
  "fst (scan_entries ch es st) \<longleftrightarrow>
     \<not> list_all (\<lambda>e. ch \<noteq> flag_on_char e \<and> \<not> (flag_off_char e \<noteq> SPACER \<and> ch = flag_off_char e)) es"
  by (induction es) auto

lemma scan_entries_not_found:
  "\<not> fst (scan_entries ch es st) \<Longrightarrow> snd (scan_entries ch es st) = st"
  by (induction es) (auto split: if_splits)

lemma query_pass1_warnings:
  "snd (query_pass1 cs (st, ws))
     = ws @ map (\<lambda>c. Unknown_flag (toupper c)) (filter matches_no_flag cs)"
proof (induction cs arbitrary: st ws)
  case Nil
  then show ?case by simp
next
  case (Cons c cs)
  obtain f st' where sc: "scan_entries (toupper c) TAINT_FLAGS st = (f, st')"
    by (cases "scan_entries (toupper c) TAINT_FLAGS st")
  have f: "f \<longleftrightarrow> \<not> matches_no_flag c"
    using scan_entries_found [of "toupper c" TAINT_FLAGS st] sc by (simp add: matches_no_flag_def)
  show ?case by (simp add: sc Cons.IH f)
qed

lemma query_pass2_conflicts: "\<not> is_unknown_flag w" if "w \<in> set (query_pass2 q st)"
  using that by (auto simp add: query_pass2_def conflict_check_def Let_def split: if_splits)

lemma filter_unknown_pass2: "filter is_unknown_flag (query_pass2 q st) = []"
  by (simp add: filter_empty_conv query_pass2_conflicts)

lemma unknown_warnings:
  "filter is_unknown_flag (query_warnings q)
     = map (\<lambda>c. Unknown_flag (toupper c)) (filter matches_no_flag q)"
proof -
  have "filter is_unknown_flag (map (\<lambda>c. Unknown_flag (toupper c)) xs)
          = map (\<lambda>c. Unknown_flag (toupper c)) xs" for xs
    by (induction xs) simp_all
  then show ?thesis
    by (simp add: query_warnings_def query_pass1_warnings filter_unknown_pass2)
qed

lemma char_bits_unknown: "matches_no_flag c \<Longrightarrow> char_bits c = 0"
proof -
  assume "matches_no_flag c"
  then have "\<not> fst (scan_entries (toupper c) TAINT_FLAGS 0)"
    by (simp add: scan_entries_found matches_no_flag_def)
  then show ?thesis
    unfolding char_bits_def by (rule scan_entries_not_found)
qed

lemma query_status_drop_unknown:
  "matches_no_flag c \<Longrightarrow> query_status (xs @ c # ys) = query_status (xs @ ys)"
  by (rule bit_word_eqI) (auto simp add: query_status_bit char_bits_unknown)

lemma count_list_filter: "P x \<Longrightarrow> count_list (filter P ws) x = count_list ws x"
  by (induction ws) auto

lemma count_list_insert: "count_list (as @ x # bs) x = Suc (count_list (as @ bs) x)"
  by (induction as) auto

lemma unknown_warning_count:
  assumes "matches_no_flag c"
  shows "count_list (query_warnings (xs @ c # ys)) (Unknown_flag (toupper c))
           = Suc (count_list (query_warnings (xs @ ys)) (Unknown_flag (toupper c)))"
proof -
  let ?u = "Unknown_flag (toupper c)"
  let ?f = "\<lambda>q. map (\<lambda>c. Unknown_flag (toupper c)) (filter matches_no_flag q)"
  have "count_list (query_warnings q) ?u = count_list (?f q) ?u" for q
    using count_list_filter [of is_unknown_flag ?u "query_warnings q"] by (simp add: unknown_warnings)
  moreover have "?f (xs @ c # ys) = ?f xs @ ?u # ?f ys"
    using assms by simp
  moreover have "?f (xs @ ys) = ?f xs @ ?f ys" by simp
  ultimately show ?thesis by (simp only: count_list_insert)
qed

text \<open>
  C4 as stated fails: the warning names the upper-case form of the character, not the
  character of the query. For the query "z" the one warning names 'Z'.
\<close>

theorem unknown_flag_warning_names_upper_case:
  "matches_no_flag CHR ''z''
   \<and> query_warnings ''z'' = [Unknown_flag CHR ''Z'']
   \<and> count_list (query_warnings ''z'') (Unknown_flag CHR ''z'') = 0
   \<and> map visible_text (lines_of (std_err (taint_query ''z'')))
       = [''Warning: Unknown taint flag 'Z' ignored.'']"
proof -
  have "matches_no_flag CHR ''z''" by code_simp
  moreover have "query_warnings ''z'' = [Unknown_flag CHR ''Z'']" by code_simp
  moreover have "count_list (query_warnings ''z'') (Unknown_flag CHR ''z'') = 0" by code_simp
  moreover have "map visible_text (lines_of (std_err (taint_query ''z'')))
       = [''Warning: Unknown taint flag 'Z' ignored.'']" by code_simp
  ultimately show ?thesis by blast
qed

text \<open>
  C4, amended. For every query string, the unknown-flag warnings are, in order, one for each
  character that matches no entry's set or unset character, naming the upper-case form of
  that character. Such a character adds exactly one warning with its upper-case form and
  leaves the accumulated value unchanged. (\<open>taint_query\<close> is total: it has no failing
  branch.)
\<close>

theorem unknown_flag_warnings:
  "filter is_unknown_flag (query_warnings q)
     = map (\<lambda>c. Unknown_flag (toupper c)) (filter matches_no_flag q)
   \<and> (matches_no_flag c \<longrightarrow>
        count_list (query_warnings (xs @ c # ys)) (Unknown_flag (toupper c))
          = Suc (count_list (query_warnings (xs @ ys)) (Unknown_flag (toupper c)))
        \<and> query_status (xs @ c # ys) = query_status (xs @ ys))"
  using unknown_warnings [of q] unknown_warning_count [of c xs ys]
    query_status_drop_unknown [of c xs ys]
  by blast

theorem unknown_flag_warnings_witness:
  "matches_no_flag CHR ''z''
   \<and> count_list (query_warnings ''pzZ'') (Unknown_flag CHR ''Z'')
       = Suc (count_list (query_warnings ''pZ'') (Unknown_flag CHR ''Z''))
   \<and> query_status ''pzZ'' = query_status ''pZ''"
proof -
  have m: "matches_no_flag CHR ''z''" by code_simp
  have u: "toupper CHR ''z'' = CHR ''Z''" by (simp add: toupper_def char_of_eq_iff)
  from unknown_flag_warnings [of "[]" "CHR ''z''" "''p''" "''Z''"] m u
  show ?thesis by simp
qed

lemma off_char_entries:
  assumes "e \<in> set TAINT_FLAGS" and "flag_off_char e \<noteq> SPACER"
  shows "flag_on_char e = CHR ''P'' \<and> flag_off_char e = CHR ''G'' \<and> flag_shift e = 0"
proof -
  have "list_all (\<lambda>e. flag_off_char e \<noteq> SPACER \<longrightarrow>
            flag_on_char e = CHR ''P'' \<and> flag_off_char e = CHR ''G'' \<and> flag_shift e = 0) TAINT_FLAGS"
    by (simp add: TAINT_FLAGS_def SPACER_def)
  with assms show ?thesis by (simp only: list_all_iff) blast
qed

lemma char_bits_P: "toupper c = CHR ''P'' \<Longrightarrow> bit (char_bits c) 0"
  by (simp add: char_bits_def TAINT_FLAGS_def bit_get_flag_value)

lemma conflict_checks:
  "concat (map (conflict_check st c) TAINT_FLAGS)
     = (if toupper c = CHR ''G'' \<and> st AND get_flag_value 0 = get_flag_value 0
        then [Conflicting_flags CHR ''P'' CHR ''G''] else [])"
  by (simp add: conflict_check_def TAINT_FLAGS_def SPACER_def Let_def)

lemma query_pass2_eq:
  "query_pass2 q st
     = concat (map (\<lambda>c. if toupper c = CHR ''G'' \<and> st AND get_flag_value 0 = get_flag_value 0
                         then [Conflicting_flags CHR ''P'' CHR ''G''] else []) q)"
  by (simp only: query_pass2_def conflict_checks)

lemma count_list_concat_if:
  "count_list (concat (map (\<lambda>c. if P c then [w] else []) q)) w = length (filter P q)"
  by (induction q) auto

lemma count_list_map_unknown:
  "count_list (map (\<lambda>c. Unknown_flag (f c)) xs) (Conflicting_flags a b) = 0"
  by (induction xs) auto

lemma conflict_count:
  "count_list (query_warnings q) (Conflicting_flags CHR ''P'' CHR ''G'')
     = (if bit (query_status q) 0 then length (filter (\<lambda>c. toupper c = CHR ''G'') q) else 0)"
proof (cases "bit (query_status q) 0")
  case True
  then have t: "query_status q AND get_flag_value 0 = get_flag_value 0"
    by (simp add: flag_test_iff_bit)
  show ?thesis
    using True
    by (simp add: query_warnings_def query_pass1_warnings count_list_map_unknown
          query_pass2_eq t count_list_concat_if)
next
  case False
  then have t: "query_status q AND get_flag_value 0 \<noteq> get_flag_value 0"
    by (simp add: flag_test_iff_bit)
  have "count_list (concat (map (\<lambda>c. []) q)) w = 0" for w :: warning
    by (induction q) auto
  then show ?thesis
    using False
    by (simp add: query_warnings_def query_pass1_warnings count_list_map_unknown
          query_pass2_eq t)
qed

text \<open>
  C3 as stated fails: the second pass warns once for every occurrence of the unset character,
  so the query "GGp" gives two conflict warnings for the entry of bit 0.
\<close>

theorem conflict_warning_twice:
  "CHR ''P'' \<in> toupper ` set ''GGp'' \<and> CHR ''G'' \<in> toupper ` set ''GGp''
   \<and> query_warnings ''GGp''
       = [Conflicting_flags CHR ''P'' CHR ''G'', Conflicting_flags CHR ''P'' CHR ''G'']
   \<and> count_list (query_warnings ''GGp'') (Conflicting_flags CHR ''P'' CHR ''G'') = 2"
proof -
  have "CHR ''P'' \<in> toupper ` set ''GGp''" by (simp add: toupper_def char_of_eq_iff char_eq_char_of_iff)
  moreover have "CHR ''G'' \<in> toupper ` set ''GGp''" by (simp add: toupper_def char_of_eq_iff char_eq_char_of_iff)
  moreover have "query_warnings ''GGp''
       = [Conflicting_flags CHR ''P'' CHR ''G'', Conflicting_flags CHR ''P'' CHR ''G'']"
    by code_simp
  moreover have "count_list (query_warnings ''GGp'') (Conflicting_flags CHR ''P'' CHR ''G'') = 2"
    by code_simp
  ultimately show ?thesis by blast
qed

text \<open>
  C3, amended. For every query string that contains, in either case, both the set character
  and the unset character of an entry, \<open>taint_query\<close> emits one conflict warning for that
  entry per occurrence of the unset character (so exactly one when it occurs once, as in
  "Gp" and "gP"), and the accumulated value has the entry's bit set.
\<close>

theorem conflict_warning_per_unset_char:
  assumes "e \<in> set TAINT_FLAGS" and "flag_off_char e \<noteq> SPACER"
    and "flag_on_char e \<in> toupper ` set q" and "flag_off_char e \<in> toupper ` set q"
  shows "count_list (query_warnings q) (Conflicting_flags (flag_on_char e) (flag_off_char e))
           = length (filter (\<lambda>c. toupper c = flag_off_char e) q)
         \<and> 0 < length (filter (\<lambda>c. toupper c = flag_off_char e) q)
         \<and> query_status q AND get_flag_value (flag_shift e) = get_flag_value (flag_shift e)"
proof -
  have e: "flag_on_char e = CHR ''P''" "flag_off_char e = CHR ''G''" "flag_shift e = 0"
    using off_char_entries [OF assms(1,2)] by simp_all
  from assms(3) obtain c where "c \<in> set q" "toupper c = CHR ''P''"
    by (auto simp add: e)
  then have b: "bit (query_status q) 0"
    using char_bits_P by (auto simp add: query_status_bit)
  from assms(4) obtain g where "g \<in> set q" "toupper g = CHR ''G''"
    by (auto simp add: e)
  then have "filter (\<lambda>c. toupper c = CHR ''G'') q \<noteq> []"
    by (auto simp add: filter_empty_conv)
  then have p: "0 < length (filter (\<lambda>c. toupper c = CHR ''G'') q)" by simp
  from b p show ?thesis
    by (simp add: e conflict_count flag_test_iff_bit)
qed

theorem conflict_warning_per_unset_char_witness:
  "TAINT_FLAGS ! 0 \<in> set TAINT_FLAGS \<and> flag_off_char (TAINT_FLAGS ! 0) \<noteq> SPACER
   \<and> flag_on_char (TAINT_FLAGS ! 0) \<in> toupper ` set ''gP''
   \<and> flag_off_char (TAINT_FLAGS ! 0) \<in> toupper ` set ''gP''
   \<and> count_list (query_warnings ''gP'') (Conflicting_flags CHR ''P'' CHR ''G'') = 1
   \<and> query_status ''gP'' AND get_flag_value 0 = get_flag_value 0"
proof -
  have f: "flag_on_char (TAINT_FLAGS ! 0) = CHR ''P''" "flag_off_char (TAINT_FLAGS ! 0) = CHR ''G''"
    "flag_shift (TAINT_FLAGS ! 0) = 0"
    by (simp_all add: TAINT_FLAGS_def)
  have h1: "TAINT_FLAGS ! 0 \<in> set TAINT_FLAGS" by (simp add: TAINT_FLAGS_def)
  have h2: "flag_off_char (TAINT_FLAGS ! 0) \<noteq> SPACER" by (simp add: f SPACER_def)
  have h3: "flag_on_char (TAINT_FLAGS ! 0) \<in> toupper ` set ''gP''"
    by (simp add: f toupper_def char_of_eq_iff char_eq_char_of_iff)
  have h4: "flag_off_char (TAINT_FLAGS ! 0) \<in> toupper ` set ''gP''"
    by (simp add: f toupper_def char_of_eq_iff char_eq_char_of_iff)
  have n: "length (filter (\<lambda>c. toupper c = CHR ''G'') ''gP'') = 1"
    by (simp add: toupper_def char_of_eq_iff char_eq_char_of_iff)
  from conflict_warning_per_unset_char [OF h1 h2 h3 h4] h1 h2 h3 h4 n
  show ?thesis by (simp add: f)
qed

section \<open>Exit codes\<close>

lemma taint_load_no_nfe: "taint_load env st \<noteq> Inl Number_format_exception"
  by (auto simp add: taint_load_def split: sum.splits exn.splits)

lemma main_try_no_nfe: "main_try env argv p \<noteq> Inl Number_format_exception"
  using taint_load_no_nfe [of env 0]
  by (auto simp add: main_try_def Let_def split: sum.splits prod.splits if_splits exn.splits)

lemma main_returns: "\<exists>code s. main env argv = Inr (code, s)"
  using main_try_no_nfe [of env argv]
  by (auto simp add: main_def Let_def split: sum.splits exn.splits)

lemma c_str_take:
  "length data < n \<Longrightarrow>
   take (c_str_length (data @ [CHR 0x00]) n) (data @ [CHR 0x00]) = c_string data"
proof (induction data arbitrary: n)
  case Nil
  then show ?case by (cases n) (simp_all add: c_string_def)
next
  case (Cons c cs)
  then obtain m where n: "n = Suc m" and m: "length cs < m" by (cases n) auto
  from Cons.IH [OF m] show ?case by (simp add: n c_string_def)
qed

lemma length_line_read: "length (line_read bytes) < BFR_SIZE"
  by (simp add: line_read_def BFR_SIZE_def)

lemma istream_get_line:
  "istream_get (Some bytes) BFR_SIZE
     = (if line_read bytes = [] then None else Some (line_read bytes))"
  by (simp add: istream_get_def line_read_def BFR_SIZE_def Let_def)

lemma taint_load_try_parse:
  assumes "taint_info_file env = Opened (Some bytes)" and "\<not> alloc_fails env Alloc_data_bfr"
    and "line_read bytes \<noteq> []"
  shows "taint_load_try env st
           = (case parse_unsigned_int64_c_str env (c_string (line_read bytes)) of
                Inl e \<Rightarrow> Inl e | Inr v \<Rightarrow> Inr (True, v, []))"
  using assms c_str_take [OF length_line_read [of bytes]]
  by (simp add: taint_load_try_def istream_get_line Let_def)

lemma main_list:
  "\<not> alloc_fails env Alloc_cl_param \<Longrightarrow>
   main env [p, ''list''] = Inr (0, \<lparr>std_out = taint_list, std_err = []\<rparr>)"
  by (simp add: main_def main_try_def Let_def PRM_LIST_def PRM_CURRENT_def EXIT_NORM_def)

lemma main_flags:
  "\<not> alloc_fails env Alloc_cl_param \<Longrightarrow> \<not> alloc_fails env Alloc_substr \<Longrightarrow>
   main env [p, ''taint='' @ chars] = Inr (0, taint_query chars)"
  by (simp add: main_def main_try_def Let_def PRM_LIST_def PRM_CURRENT_def PRM_FLAGS_def
        EXIT_NORM_def)

lemma main_flags_bad_alloc:
  "\<not> alloc_fails env Alloc_cl_param \<Longrightarrow> alloc_fails env Alloc_substr \<Longrightarrow>
   exit_code (main env [p, ''taint='' @ chars]) = Some 2"
  by (simp add: main_def main_try_def exit_code_def Let_def PRM_LIST_def PRM_CURRENT_def
        PRM_FLAGS_def EXIT_ERR_MEM_ALLOC_def)

lemma main_current:
  assumes "\<not> alloc_fails env Alloc_cl_param"
  shows "main env [p, ''current'']
     = (case taint_load env 0 of
          Inl Bad_alloc \<Rightarrow>
            Inr (2, \<lparr>std_out = [],
                      std_err = [Fmt F_ALERT, Str p, Str '': Out of memory'', Fmt F_RESET, Endl]\<rparr>)
        | Inl Number_format_exception \<Rightarrow> Inl Number_format_exception
        | Inr (rc, v, err) \<Rightarrow>
            if rc then Inr (0, \<lparr>std_out = taint_analyze v, std_err = err\<rparr>)
            else Inr (1, \<lparr>std_out = [], std_err = err\<rparr>))"
  using assms
  by (simp add: main_def main_try_def Let_def PRM_CURRENT_def EXIT_NORM_def EXIT_ERR_GENERIC_def
        EXIT_ERR_MEM_ALLOC_def split: sum.splits exn.splits prod.splits)

lemma main_current_unopenable:
  assumes "\<not> alloc_fails env Alloc_cl_param" and "taint_info_file env = Unopenable"
  shows "exit_code (main env [p, ''current'']) = Some 1 \<and> printed (main env [p, ''current'']) = []"
  using assms(2)
  by (simp add: main_current [OF assms(1)] taint_load_def taint_load_try_def exit_code_def
        printed_def)

lemma main_current_buffer_bad_alloc:
  assumes "\<not> alloc_fails env Alloc_cl_param" and "taint_info_file env = Opened content"
    and "alloc_fails env Alloc_data_bfr"
  shows "exit_code (main env [p, ''current'']) = Some 2"
  using assms(2,3)
  by (simp add: main_current [OF assms(1)] taint_load_def taint_load_try_def exit_code_def)

lemma main_current_read_error:
  assumes "\<not> alloc_fails env Alloc_cl_param" and "taint_info_file env = Opened None"
    and "\<not> alloc_fails env Alloc_data_bfr"
  shows "exit_code (main env [p, ''current'']) = Some 1 \<and> printed (main env [p, ''current'']) = []"
  using assms(2,3)
  by (simp add: main_current [OF assms(1)] taint_load_def taint_load_try_def istream_get_def
        exit_code_def printed_def)

lemma main_current_empty:
  assumes "\<not> alloc_fails env Alloc_cl_param" and "taint_info_file env = Opened (Some bytes)"
    and "\<not> alloc_fails env Alloc_data_bfr" and "line_read bytes = []"
  shows "exit_code (main env [p, ''current'']) = Some 1 \<and> printed (main env [p, ''current'']) = []"
  using assms(2,3,4)
  by (simp add: main_current [OF assms(1)] taint_load_def taint_load_try_def istream_get_line
        exit_code_def printed_def)

lemma main_current_parsed:
  assumes "\<not> alloc_fails env Alloc_cl_param" and "taint_info_file env = Opened (Some bytes)"
    and "\<not> alloc_fails env Alloc_data_bfr" and "line_read bytes \<noteq> []"
    and "parse_unsigned_int64_c_str env (c_string (line_read bytes)) = Inr v"
  shows "main env [p, ''current''] = Inr (0, \<lparr>std_out = taint_analyze v, std_err = []\<rparr>)"
  using assms(5)
  by (simp add: main_current [OF assms(1)] taint_load_def taint_load_try_parse [OF assms(2,3,4)])

lemma main_current_unparsable:
  assumes "\<not> alloc_fails env Alloc_cl_param" and "taint_info_file env = Opened (Some bytes)"
    and "\<not> alloc_fails env Alloc_data_bfr" and "line_read bytes \<noteq> []"
    and "parse_unsigned_int64_c_str env (c_string (line_read bytes)) = Inl Number_format_exception"
  shows "exit_code (main env [p, ''current'']) = Some 1 \<and> printed (main env [p, ''current'']) = []"
  using assms(5)
  by (simp add: main_current [OF assms(1)] taint_load_def taint_load_try_parse [OF assms(2,3,4)]
        exit_code_def printed_def)

lemma main_current_parser_bad_alloc:
  assumes "\<not> alloc_fails env Alloc_cl_param" and "taint_info_file env = Opened (Some bytes)"
    and "\<not> alloc_fails env Alloc_data_bfr" and "line_read bytes \<noteq> []"
    and "parse_unsigned_int64_c_str env (c_string (line_read bytes)) = Inl Bad_alloc"
  shows "exit_code (main env [p, ''current'']) = Some 2"
  using assms(5)
  by (simp add: main_current [OF assms(1)] taint_load_def taint_load_try_parse [OF assms(2,3,4)]
        exit_code_def)

lemma main_other:
  "\<not> alloc_fails env Alloc_cl_param \<Longrightarrow> a \<noteq> PRM_CURRENT \<Longrightarrow> a \<noteq> PRM_LIST \<Longrightarrow>
   take (length PRM_FLAGS) a \<noteq> PRM_FLAGS \<Longrightarrow>
   main env [p, a] = Inr (1, \<lparr>std_out = print_syntax_text p, std_err = []\<rparr>)"
  by (simp add: main_def main_try_def Let_def EXIT_ERR_GENERIC_def)

lemma main_argc:
  "length argv \<noteq> 2 \<Longrightarrow>
   main env argv
     = Inr (1, \<lparr>std_out = print_syntax_text (if length argv \<ge> 1 then argv ! 0 else ''TaintInfo''),
                 std_err = []\<rparr>)"
  by (simp add: main_def main_try_def Let_def EXIT_ERR_GENERIC_def)

lemma main_cl_param_bad_alloc:
  "length argv = 2 \<Longrightarrow> alloc_fails env Alloc_cl_param \<Longrightarrow> exit_code (main env argv) = Some 2"
  by (simp add: main_def main_try_def exit_code_def Let_def EXIT_ERR_MEM_ALLOC_def)

lemma taint_load_try_no_bad_alloc:
  assumes "\<forall>a. \<not> alloc_fails env a" and "\<forall>s. parse_unsigned_int64_c_str env s \<noteq> Inl Bad_alloc"
  shows "taint_load_try env st \<noteq> Inl Bad_alloc"
  using assms
  by (auto simp add: taint_load_try_def Let_def split: taint_file.splits option.splits sum.splits)

lemma main_no_bad_alloc:
  assumes "\<forall>a. \<not> alloc_fails env a" and "\<forall>s. parse_unsigned_int64_c_str env s \<noteq> Inl Bad_alloc"
  shows "exit_code (main env argv) \<noteq> Some 2"
proof -
  have l: "taint_load env 0 \<noteq> Inl Bad_alloc"
    using taint_load_try_no_bad_alloc [OF assms, of 0]
    by (auto simp add: taint_load_def split: sum.splits exn.splits)
  have "main_try env argv p \<noteq> Inl Bad_alloc" for p
    using assms(1) l
    by (auto simp add: main_try_def Let_def split: sum.splits prod.splits if_splits)
  moreover have "main_try env argv p = Inr (c, s) \<Longrightarrow> c \<noteq> 2" for p c s
    by (auto simp add: main_try_def Let_def EXIT_NORM_def EXIT_ERR_GENERIC_def
          split: sum.splits prod.splits if_splits)
  ultimately show ?thesis
    using main_try_no_nfe [of env argv]
    by (auto simp add: main_def exit_code_def Let_def split: sum.splits exn.splits prod.splits)
qed

lemma usage_text:
  "visible_text (print_syntax_text p)
     = ''Syntax: '' @ p @ '' { current | list | taint=<flags> }'' @ [CHR 0x0A]
       @ ''        current      Display information about the current taint status of the running kernel''
       @ [CHR 0x0A]
       @ ''        list         List all known taint flags and their descriptions'' @ [CHR 0x0A]
       @ ''        taint=flags  Display information about the specified taint flags''
       @ [CHR 0x0A, CHR 0x0A]"
  by (simp add: print_syntax_text_def visible_text_def)

text \<open>
  C5. The exit code of \<open>main\<close> is 0 for the argument "list" and for an argument
  "taint=<chars>", with the list or the report of the query printed. For "current" it is 0,
  with the report of the parsed value printed, when the file opens, its first line is not
  empty and the parser returns a value; it is 1, with no report printed, when the file cannot
  be opened, cannot be read or gives an empty line, or the parser throws
  \<open>NumberFormatException\<close>. It is 1, with the usage text printed, for any other argument
  and when there is not exactly one argument. It is 2 when an allocation throws
  \<open>std::bad_alloc\<close>: the construction of \<open>cl_param\<close>, the read buffer of "current", the
  \<open>substr\<close> of "taint=", or the parser; and it is never 2 when none does. \<open>main\<close> always
  returns an exit code.
\<close>

theorem exit_codes:
  "(\<not> alloc_fails env Alloc_cl_param \<longrightarrow>
      main env [p, ''list''] = Inr (0, \<lparr>std_out = taint_list, std_err = []\<rparr>))
   \<and> (\<not> alloc_fails env Alloc_cl_param \<and> \<not> alloc_fails env Alloc_substr \<longrightarrow>
        main env [p, ''taint='' @ chars] = Inr (0, taint_query chars))
   \<and> (\<not> alloc_fails env Alloc_cl_param \<and> taint_info_file env = Opened (Some bytes)
          \<and> \<not> alloc_fails env Alloc_data_bfr \<and> line_read bytes \<noteq> []
          \<and> parse_unsigned_int64_c_str env (c_string (line_read bytes)) = Inr v \<longrightarrow>
        main env [p, ''current''] = Inr (0, \<lparr>std_out = taint_analyze v, std_err = []\<rparr>))
   \<and> (\<not> alloc_fails env Alloc_cl_param \<and> taint_info_file env = Unopenable \<longrightarrow>
        exit_code (main env [p, ''current'']) = Some 1 \<and> printed (main env [p, ''current'']) = [])
   \<and> (\<not> alloc_fails env Alloc_cl_param \<and> taint_info_file env = Opened None
          \<and> \<not> alloc_fails env Alloc_data_bfr \<longrightarrow>
        exit_code (main env [p, ''current'']) = Some 1 \<and> printed (main env [p, ''current'']) = [])
   \<and> (\<not> alloc_fails env Alloc_cl_param \<and> taint_info_file env = Opened (Some bytes)
          \<and> \<not> alloc_fails env Alloc_data_bfr \<and> line_read bytes = [] \<longrightarrow>
        exit_code (main env [p, ''current'']) = Some 1 \<and> printed (main env [p, ''current'']) = [])
   \<and> (\<not> alloc_fails env Alloc_cl_param \<and> taint_info_file env = Opened (Some bytes)
          \<and> \<not> alloc_fails env Alloc_data_bfr \<and> line_read bytes \<noteq> []
          \<and> parse_unsigned_int64_c_str env (c_string (line_read bytes))
              = Inl Number_format_exception \<longrightarrow>
        exit_code (main env [p, ''current'']) = Some 1 \<and> printed (main env [p, ''current'']) = [])
   \<and> (\<not> alloc_fails env Alloc_cl_param \<and> a \<noteq> PRM_CURRENT \<and> a \<noteq> PRM_LIST
          \<and> take (length PRM_FLAGS) a \<noteq> PRM_FLAGS \<longrightarrow>
        main env [p, a] = Inr (1, \<lparr>std_out = print_syntax_text p, std_err = []\<rparr>))
   \<and> (length argv \<noteq> 2 \<longrightarrow>
        main env argv
          = Inr (1, \<lparr>std_out = print_syntax_text (if length argv \<ge> 1 then argv ! 0 else ''TaintInfo''),
                      std_err = []\<rparr>))
   \<and> visible_text (print_syntax_text p)
       = ''Syntax: '' @ p @ '' { current | list | taint=<flags> }'' @ [CHR 0x0A]
         @ ''        current      Display information about the current taint status of the running kernel''
         @ [CHR 0x0A]
         @ ''        list         List all known taint flags and their descriptions'' @ [CHR 0x0A]
         @ ''        taint=flags  Display information about the specified taint flags''
         @ [CHR 0x0A, CHR 0x0A]
   \<and> (length argv = 2 \<and> alloc_fails env Alloc_cl_param \<longrightarrow>
        exit_code (main env argv) = Some 2)
   \<and> (\<not> alloc_fails env Alloc_cl_param \<and> taint_info_file env = Opened content
          \<and> alloc_fails env Alloc_data_bfr \<longrightarrow>
        exit_code (main env [p, ''current'']) = Some 2)
   \<and> (\<not> alloc_fails env Alloc_cl_param \<and> alloc_fails env Alloc_substr \<longrightarrow>
        exit_code (main env [p, ''taint='' @ chars]) = Some 2)
   \<and> (\<not> alloc_fails env Alloc_cl_param \<and> taint_info_file env = Opened (Some bytes)
          \<and> \<not> alloc_fails env Alloc_data_bfr \<and> line_read bytes \<noteq> []
          \<and> parse_unsigned_int64_c_str env (c_string (line_read bytes)) = Inl Bad_alloc \<longrightarrow>
        exit_code (main env [p, ''current'']) = Some 2)
   \<and> ((\<forall>x. \<not> alloc_fails env x) \<and> (\<forall>s. parse_unsigned_int64_c_str env s \<noteq> Inl Bad_alloc) \<longrightarrow>
        exit_code (main env argv) \<noteq> Some 2)
   \<and> (\<exists>code s. main env argv = Inr (code, s))"
proof -
  have c1:
    "(\<not> alloc_fails env Alloc_cl_param \<longrightarrow>
      main env [p, ''list''] = Inr (0, \<lparr>std_out = taint_list, std_err = []\<rparr>))"
    using main_list [of env p] by blast
  have c2:
    "(\<not> alloc_fails env Alloc_cl_param \<and> \<not> alloc_fails env Alloc_substr \<longrightarrow>
        main env [p, ''taint='' @ chars] = Inr (0, taint_query chars))"
    using main_flags [of env p chars] by blast
  have c3:
    "(\<not> alloc_fails env Alloc_cl_param \<and> taint_info_file env = Opened (Some bytes)
          \<and> \<not> alloc_fails env Alloc_data_bfr \<and> line_read bytes \<noteq> []
          \<and> parse_unsigned_int64_c_str env (c_string (line_read bytes)) = Inr v \<longrightarrow>
        main env [p, ''current''] = Inr (0, \<lparr>std_out = taint_analyze v, std_err = []\<rparr>))"
    using main_current_parsed [of env bytes v p] by blast
  have c4:
    "(\<not> alloc_fails env Alloc_cl_param \<and> taint_info_file env = Unopenable \<longrightarrow>
        exit_code (main env [p, ''current'']) = Some 1 \<and> printed (main env [p, ''current'']) = [])"
    using main_current_unopenable [of env p] by blast
  have c5:
    "(\<not> alloc_fails env Alloc_cl_param \<and> taint_info_file env = Opened None
          \<and> \<not> alloc_fails env Alloc_data_bfr \<longrightarrow>
        exit_code (main env [p, ''current'']) = Some 1 \<and> printed (main env [p, ''current'']) = [])"
    using main_current_read_error [of env p] by blast
  have c6:
    "(\<not> alloc_fails env Alloc_cl_param \<and> taint_info_file env = Opened (Some bytes)
          \<and> \<not> alloc_fails env Alloc_data_bfr \<and> line_read bytes = [] \<longrightarrow>
        exit_code (main env [p, ''current'']) = Some 1 \<and> printed (main env [p, ''current'']) = [])"
    using main_current_empty [of env bytes p] by blast
  have c7:
    "(\<not> alloc_fails env Alloc_cl_param \<and> taint_info_file env = Opened (Some bytes)
          \<and> \<not> alloc_fails env Alloc_data_bfr \<and> line_read bytes \<noteq> []
          \<and> parse_unsigned_int64_c_str env (c_string (line_read bytes))
              = Inl Number_format_exception \<longrightarrow>
        exit_code (main env [p, ''current'']) = Some 1 \<and> printed (main env [p, ''current'']) = [])"
    using main_current_unparsable [of env bytes p] by blast
  have c8:
    "(\<not> alloc_fails env Alloc_cl_param \<and> a \<noteq> PRM_CURRENT \<and> a \<noteq> PRM_LIST
          \<and> take (length PRM_FLAGS) a \<noteq> PRM_FLAGS \<longrightarrow>
        main env [p, a] = Inr (1, \<lparr>std_out = print_syntax_text p, std_err = []\<rparr>))"
    using main_other [of env a p] by blast
  have c9:
    "(length argv \<noteq> 2 \<longrightarrow>
        main env argv
          = Inr (1, \<lparr>std_out = print_syntax_text (if length argv \<ge> 1 then argv ! 0 else ''TaintInfo''),
                      std_err = []\<rparr>))"
    using main_argc [of argv env] by blast
  have c10:
    "visible_text (print_syntax_text p)
       = ''Syntax: '' @ p @ '' { current | list | taint=<flags> }'' @ [CHR 0x0A]
         @ ''        current      Display information about the current taint status of the running kernel''
         @ [CHR 0x0A]
         @ ''        list         List all known taint flags and their descriptions'' @ [CHR 0x0A]
         @ ''        taint=flags  Display information about the specified taint flags''
         @ [CHR 0x0A, CHR 0x0A]"
    by (rule usage_text)
  have c11:
    "(length argv = 2 \<and> alloc_fails env Alloc_cl_param \<longrightarrow>
        exit_code (main env argv) = Some 2)"
    using main_cl_param_bad_alloc [of argv env] by blast
  have c12:
    "(\<not> alloc_fails env Alloc_cl_param \<and> taint_info_file env = Opened content
          \<and> alloc_fails env Alloc_data_bfr \<longrightarrow>
        exit_code (main env [p, ''current'']) = Some 2)"
    using main_current_buffer_bad_alloc [of env content p] by blast
  have c13:
    "(\<not> alloc_fails env Alloc_cl_param \<and> alloc_fails env Alloc_substr \<longrightarrow>
        exit_code (main env [p, ''taint='' @ chars]) = Some 2)"
    using main_flags_bad_alloc [of env p chars] by blast
  have c14:
    "(\<not> alloc_fails env Alloc_cl_param \<and> taint_info_file env = Opened (Some bytes)
          \<and> \<not> alloc_fails env Alloc_data_bfr \<and> line_read bytes \<noteq> []
          \<and> parse_unsigned_int64_c_str env (c_string (line_read bytes)) = Inl Bad_alloc \<longrightarrow>
        exit_code (main env [p, ''current'']) = Some 2)"
    using main_current_parser_bad_alloc [of env bytes p] by blast
  have c15:
    "((\<forall>x. \<not> alloc_fails env x) \<and> (\<forall>s. parse_unsigned_int64_c_str env s \<noteq> Inl Bad_alloc) \<longrightarrow>
        exit_code (main env argv) \<noteq> Some 2)"
    using main_no_bad_alloc [of env argv] by blast
  have c16:
    "(\<exists>code s. main env argv = Inr (code, s))"
    by (rule main_returns)
  show ?thesis
    by (intro conjI) (rule c1, rule c2, rule c3, rule c4, rule c5, rule c6, rule c7, rule c8,
      rule c9, rule c10, rule c11, rule c12, rule c13, rule c14, rule c15, rule c16)
qed

lemma parse_unsigned_decimal_no_bad_alloc: "parse_unsigned_decimal s \<noteq> Inl Bad_alloc"
  by (simp add: parse_unsigned_decimal_def split: option.splits)

theorem exit_codes_witness:
  "main (example_env (Opened (Some ([CHR ''4'', CHR ''0'', CHR ''9'', CHR ''6'', CHR 0x0A]))) (\<lambda>x. False)) [''taintinfo'', ''list'']
     = Inr (0, \<lparr>std_out = taint_list, std_err = []\<rparr>)
   \<and> main (example_env Unopenable (\<lambda>x. False)) [''taintinfo'', ''taint=pmeol'']
       = Inr (0, taint_query ''pmeol'')
   \<and> main (example_env (Opened (Some ([CHR ''4'', CHR ''0'', CHR ''9'', CHR ''6'', CHR 0x0A]))) (\<lambda>x. False)) [''taintinfo'', ''current'']
       = Inr (0, \<lparr>std_out = taint_analyze 4096, std_err = []\<rparr>)
   \<and> exit_code (main (example_env Unopenable (\<lambda>x. False)) [''taintinfo'', ''current'']) = Some 1
   \<and> exit_code (main (example_env (Opened None) (\<lambda>x. False)) [''taintinfo'', ''current'']) = Some 1
   \<and> exit_code (main (example_env (Opened (Some [CHR 0x0A])) (\<lambda>x. False)) [''taintinfo'', ''current''])
       = Some 1
   \<and> exit_code (main (example_env (Opened (Some ''tainted'')) (\<lambda>x. False)) [''taintinfo'', ''current''])
       = Some 1
   \<and> exit_code (main (example_env Unopenable (\<lambda>x. False)) [''taintinfo'', ''value=1'']) = Some 1
   \<and> exit_code (main (example_env Unopenable (\<lambda>x. False)) [''taintinfo'']) = Some 1
   \<and> exit_code (main (example_env Unopenable (\<lambda>x. x = Alloc_cl_param))
                   [''taintinfo'', ''taint=pmeolpmeolpmeolpmeol'']) = Some 2
   \<and> exit_code (main (example_env (Opened (Some ([CHR ''4'', CHR ''0'', CHR ''9'', CHR ''6'', CHR 0x0A]))) (\<lambda>x. x = Alloc_data_bfr))
                   [''taintinfo'', ''current'']) = Some 2
   \<and> exit_code (main (example_env Unopenable (\<lambda>x. x = Alloc_substr))
                   [''taintinfo'', ''taint=pmeolpmeolpmeolpmeol'']) = Some 2
   \<and> exit_code (main (example_env (Opened (Some ([CHR ''4'', CHR ''0'', CHR ''9'', CHR ''6'', CHR 0x0A]))) (\<lambda>x. False)
                          \<lparr>parse_unsigned_int64_c_str := \<lambda>s. Inl Bad_alloc\<rparr>)
                   [''taintinfo'', ''current'']) = Some 2
   \<and> exit_code (main (example_env (Opened (Some ([CHR ''4'', CHR ''0'', CHR ''9'', CHR ''6'', CHR 0x0A]))) (\<lambda>x. False))
                   [''taintinfo'', ''current'']) \<noteq> Some 2"
proof -
  let ?none = "\<lambda>x :: alloc. False"
  let ?file = "Opened (Some ([CHR ''4'', CHR ''0'', CHR ''9'', CHR ''6'', CHR 0x0A]))"
  let ?long = "''pmeolpmeolpmeolpmeol''"
  have e: "taint_info_file (example_env f g) = f" "alloc_fails (example_env f g) = g"
    "parse_unsigned_int64_c_str (example_env f g) = parse_unsigned_decimal" for f g
    by (simp_all add: example_env_def)
  have l: "line_read ([CHR ''4'', CHR ''0'', CHR ''9'', CHR ''6'', CHR 0x0A]) = ''4096''" "line_read [CHR 0x0A] = []"
    "line_read ''tainted'' = ''tainted''"
    by (simp_all add: line_read_def)
  have c: "c_string ''4096'' = ''4096''" "c_string ''tainted'' = ''tainted''"
    by (simp_all add: c_string_def)
  have p: "parse_unsigned_decimal ''4096'' = Inr 4096"
    "parse_unsigned_decimal ''tainted'' = Inl Number_format_exception"
    by (simp_all add: parse_unsigned_decimal_def)
  have o: "''value=1'' \<noteq> PRM_CURRENT" "''value=1'' \<noteq> PRM_LIST"
    "take (length PRM_FLAGS) ''value=1'' \<noteq> PRM_FLAGS"
    by (simp_all add: PRM_CURRENT_def PRM_LIST_def PRM_FLAGS_def)
  have 1: "main (example_env ?file ?none) [''taintinfo'', ''list''] = Inr (0, \<lparr>std_out = taint_list, std_err = []\<rparr>)"
    using exit_codes [of "example_env ?file ?none" "''taintinfo''" _ _ _ _ _ _, THEN conjunct1]
    by (simp add: e)
  have 2: "main (example_env Unopenable ?none) [''taintinfo'', ''taint=pmeol''] = Inr (0, taint_query ''pmeol'')"
    using exit_codes [of "example_env Unopenable ?none" "''taintinfo''" "''pmeol''" _ _ _ _ _, THEN conjunct2, THEN conjunct1]
    by (simp add: e)
  have 3: "main (example_env ?file ?none) [''taintinfo'', ''current''] = Inr (0, \<lparr>std_out = taint_analyze 4096, std_err = []\<rparr>)"
    using exit_codes [of "example_env ?file ?none" "''taintinfo''" _ "[CHR ''4'', CHR ''0'', CHR ''9'', CHR ''6'', CHR 0x0A]" 4096 _ _ _, THEN conjunct2, THEN conjunct2, THEN conjunct1]
    by (simp add: e l c p)
  have 4: "exit_code (main (example_env Unopenable ?none) [''taintinfo'', ''current'']) = Some 1"
    using exit_codes [of "example_env Unopenable ?none" "''taintinfo''" _ _ _ _ _ _, THEN conjunct2, THEN conjunct2, THEN conjunct2, THEN conjunct1]
    by (simp add: e)
  have 5: "exit_code (main (example_env (Opened None) ?none) [''taintinfo'', ''current'']) = Some 1"
    using exit_codes [of "example_env (Opened None) ?none" "''taintinfo''" _ _ _ _ _ _, THEN conjunct2, THEN conjunct2, THEN conjunct2, THEN conjunct2, THEN conjunct1]
    by (simp add: e)
  have 6: "exit_code (main (example_env (Opened (Some [CHR 0x0A])) ?none) [''taintinfo'', ''current'']) = Some 1"
    using exit_codes [of "example_env (Opened (Some [CHR 0x0A])) ?none" "''taintinfo''" _ "[CHR 0x0A]" _ _ _ _, THEN conjunct2, THEN conjunct2, THEN conjunct2, THEN conjunct2, THEN conjunct2, THEN conjunct1]
    by (simp add: e l)
  have 7: "exit_code (main (example_env (Opened (Some ''tainted'')) ?none) [''taintinfo'', ''current'']) = Some 1"
    using exit_codes [of "example_env (Opened (Some ''tainted'')) ?none" "''taintinfo''" _ "''tainted''" _ _ _ _, THEN conjunct2, THEN conjunct2, THEN conjunct2, THEN conjunct2, THEN conjunct2, THEN conjunct2, THEN conjunct1]
    by (simp add: e l c p)
  have 8: "exit_code (main (example_env Unopenable ?none) [''taintinfo'', ''value=1'']) = Some 1"
    using exit_codes [of "example_env Unopenable ?none" "''taintinfo''" _ _ _ "''value=1''" _ _, THEN conjunct2, THEN conjunct2, THEN conjunct2, THEN conjunct2, THEN conjunct2, THEN conjunct2, THEN conjunct2, THEN conjunct1]
    by (simp add: e o exit_code_def)
  have 9: "exit_code (main (example_env Unopenable ?none) [''taintinfo'']) = Some 1"
    using exit_codes [of "example_env Unopenable ?none" _ _ _ _ _ "[''taintinfo'']" _, THEN conjunct2, THEN conjunct2, THEN conjunct2, THEN conjunct2, THEN conjunct2, THEN conjunct2, THEN conjunct2, THEN conjunct2, THEN conjunct1]
    by (simp add: exit_code_def)
  have 10: "exit_code (main (example_env Unopenable (\<lambda>x. x = Alloc_cl_param)) [''taintinfo'', ''taint=pmeolpmeolpmeolpmeol'']) = Some 2"
    using exit_codes [of "example_env Unopenable (\<lambda>x. x = Alloc_cl_param)" _ _ _ _ _ "[''taintinfo'', ''taint=pmeolpmeolpmeolpmeol'']" _, THEN conjunct2, THEN conjunct2, THEN conjunct2, THEN conjunct2, THEN conjunct2, THEN conjunct2, THEN conjunct2, THEN conjunct2, THEN conjunct2, THEN conjunct2, THEN conjunct1]
    by (simp add: e)
  have 11: "exit_code (main (example_env ?file (\<lambda>x. x = Alloc_data_bfr)) [''taintinfo'', ''current'']) = Some 2"
    using exit_codes [of "example_env ?file (\<lambda>x. x = Alloc_data_bfr)" "''taintinfo''" _ _ _ _ _ "Some ([CHR ''4'', CHR ''0'', CHR ''9'', CHR ''6'', CHR 0x0A])", THEN conjunct2, THEN conjunct2, THEN conjunct2, THEN conjunct2, THEN conjunct2, THEN conjunct2, THEN conjunct2, THEN conjunct2, THEN conjunct2, THEN conjunct2, THEN conjunct2, THEN conjunct1]
    by (simp add: e)
  have 12: "exit_code (main (example_env Unopenable (\<lambda>x. x = Alloc_substr)) [''taintinfo'', ''taint=pmeolpmeolpmeolpmeol'']) = Some 2"
    using exit_codes [of "example_env Unopenable (\<lambda>x. x = Alloc_substr)" "''taintinfo''" ?long _ _ _ _ _, THEN conjunct2, THEN conjunct2, THEN conjunct2, THEN conjunct2, THEN conjunct2, THEN conjunct2, THEN conjunct2, THEN conjunct2, THEN conjunct2, THEN conjunct2, THEN conjunct2, THEN conjunct2, THEN conjunct1]
    by (simp add: e)
  have 13: "exit_code (main (example_env ?file ?none \<lparr>parse_unsigned_int64_c_str := \<lambda>s. Inl Bad_alloc\<rparr>) [''taintinfo'', ''current'']) = Some 2"
    using exit_codes [of "example_env ?file ?none \<lparr>parse_unsigned_int64_c_str := \<lambda>s. Inl Bad_alloc\<rparr>" "''taintinfo''" _ "[CHR ''4'', CHR ''0'', CHR ''9'', CHR ''6'', CHR 0x0A]" _ _ _ _, THEN conjunct2, THEN conjunct2, THEN conjunct2, THEN conjunct2, THEN conjunct2, THEN conjunct2, THEN conjunct2, THEN conjunct2, THEN conjunct2, THEN conjunct2, THEN conjunct2, THEN conjunct2, THEN conjunct2, THEN conjunct1]
    by (simp add: e l)
  have 14: "exit_code (main (example_env ?file ?none) [''taintinfo'', ''current'']) \<noteq> Some 2"
    using exit_codes [of "example_env ?file ?none" _ _ _ _ _ "[''taintinfo'', ''current'']" _, THEN conjunct2, THEN conjunct2, THEN conjunct2, THEN conjunct2, THEN conjunct2, THEN conjunct2, THEN conjunct2, THEN conjunct2, THEN conjunct2, THEN conjunct2, THEN conjunct2, THEN conjunct2, THEN conjunct2, THEN conjunct2, THEN conjunct1]
    by (simp add: e parse_unsigned_decimal_no_bad_alloc)
  show ?thesis
    by (intro conjI) (rule 1, rule 2, rule 3, rule 4, rule 5, rule 6, rule 7, rule 8, rule 9,
      rule 10, rule 11, rule 12, rule 13, rule 14)
qed

end
